theory Spec2Isabelle
  imports Main "HOL-Library.Multiset"
begin

section \<open>Python values used by the bot\<close>

text \<open>
  A Python \<open>str\<close> is modelled as a \<open>string\<close>: a list of code points below 256
  (Latin-1). Code points above U+00FF are outside the model. Exceptions that escape a
  function are values of \<open>py_error\<close>, returned as \<open>Inl\<close>.
\<close>

datatype py_error =
  ValueError | OverflowError | AttributeError | UnicodeDecodeError | ReadError
  | Forbidden | HTTPException

text \<open>
  \<open>str.lower()\<close> on one code point below 256: the ASCII capitals and the Latin-1
  capitals U+00C0..U+00DE (the multiplication sign U+00D7 apart) move up by 32.
\<close>

definition lower_char :: "char \<Rightarrow> char" where
  "lower_char c =
     (let n = (of_char c :: nat) in
      if 65 \<le> n \<and> n \<le> 90 then char_of (n + 32)
      else if 192 \<le> n \<and> n \<le> 222 \<and> n \<noteq> 215 then char_of (n + 32)
      else c)"

definition lower :: "string \<Rightarrow> string" where
  "lower s = map lower_char s"

text \<open>
  The regular expression class \<open>\d\<close>: below U+0100 the only decimal digits are the
  ASCII digits.
\<close>

definition is_digit :: "char \<Rightarrow> bool" where
  "is_digit c = (48 \<le> (of_char c :: nat) \<and> (of_char c :: nat) \<le> 57)"

definition digit_val :: "char \<Rightarrow> int" where
  "digit_val c = int (of_char c) - 48"

text \<open>The value of a run of decimal digits, most significant digit first.\<close>

definition decimal :: "string \<Rightarrow> int" where
  "decimal ds = foldl (\<lambda>n c. 10 * n + digit_val c) 0 ds"

text \<open>
  \<open>int(ds)\<close> on a non-empty run of decimal digits. CPython refuses a digit string longer
  than the interpreter's limit \<open>max_str_digits\<close> with ValueError; the limit is not applied
  to strings of 640 digits or fewer, and the limit 0 switches the check off.
\<close>

definition py_int :: "nat \<Rightarrow> string \<Rightarrow> py_error + int" where
  "py_int max_str_digits ds =
     (if 640 < length ds \<and> 0 < max_str_digits \<and> max_str_digits < length ds
      then Inl ValueError
      else Inr (decimal ds))"

text \<open>
  \<open>datetime.timedelta\<close> built from whole seconds, kept as the number of seconds. The
  constructor raises OverflowError when the number of days leaves
  \<open>-999999999 .. 999999999\<close>.
\<close>

definition timedelta :: "int \<Rightarrow> py_error + int" where
  "timedelta secs =
     (if \<bar>secs div 86400\<bar> > 999999999 then Inl OverflowError else Inr secs)"

section \<open>utils/duration\_parser.py\<close>

text \<open>
  What \<open>$\<close> accepts after the unit letter: the end of the string, or one line feed that
  ends the string.
\<close>

fun at_dollar :: "string \<Rightarrow> bool" where
  "at_dollar [] = True"
| "at_dollar [c] = (c = CHR 0x0A)"
| "at_dollar (c # d # cs) = False"

text \<open>
  \<open>re.match(r"(\d+)([smhd])$", s)\<close>: the match starts at the first character; the
  digit run is taken whole, since the character after it has to be a unit letter. The
  result is the two groups.
\<close>

definition re_match :: "string \<Rightarrow> (string \<times> char) option" where
  "re_match s =
     (let ds = takeWhile is_digit s; rest = dropWhile is_digit s in
      if ds = [] then None
      else (case rest of
              [] \<Rightarrow> None
            | u # after \<Rightarrow>
                if u \<in> set ''smhd'' \<and> at_dollar after then Some (ds, u) else None))"

text \<open>
  \<open>parse_duration\<close>: \<open>Inr None\<close> is the value None, \<open>Inr (Some d)\<close> a timedelta of
  \<open>d\<close> seconds, \<open>Inl e\<close> an exception that leaves the function. The argument is a
  \<open>str\<close>, so the \<open>isinstance\<close> test passes.
\<close>

definition parse_duration :: "nat \<Rightarrow> string \<Rightarrow> py_error + int option" where
  "parse_duration max_str_digits duration_str =
     (case re_match (lower duration_str) of
        None \<Rightarrow> Inr None
      | Some (ds, unit) \<Rightarrow>
          (case py_int max_str_digits ds of
             Inl e \<Rightarrow> (if e = ValueError then Inr None else Inl e)
           | Inr v \<Rightarrow>
               if v \<le> 0 then Inr None
               else
                 (case (if unit = CHR ''s'' then Some (timedelta v)
                        else if unit = CHR ''m'' then Some (timedelta (v * 60))
                        else if unit = CHR ''h'' then Some (timedelta (v * 3600))
                        else if unit = CHR ''d'' then Some (timedelta (v * 86400))
                        else None) of
                    None \<Rightarrow> Inr None
                  | Some (Inl e) \<Rightarrow> Inl e
                  | Some (Inr delta) \<Rightarrow>
                      if delta > 28 * 86400 then Inr None else Inr (Some delta))))"

text \<open>
  \<open>str(n)\<close> for an integer: the decimal digits, after a minus sign when \<open>n\<close> is
  negative.
\<close>

fun nat_digits :: "nat \<Rightarrow> string" where
  "nat_digits n =
     (if n < 10 then [char_of (48 + n)]
      else nat_digits (n div 10) @ [char_of (48 + n mod 10)])"

declare nat_digits.simps [simp del]

definition py_str :: "int \<Rightarrow> string" where
  "py_str n = (if n < 0 then CHR ''-'' # nat_digits (nat (- n)) else nat_digits (nat n))"

section \<open>utils/config\_manager.py\<close>

text \<open>
  A warning is a JSON object with the keys \<open>moderator_id\<close>, \<open>reason\<close>,
  \<open>timestamp\<close> and \<open>id\<close>; \<open>None\<close> is an absent key, which the readers of a
  warning allow for with \<open>dict.get\<close>.
\<close>

record warning_entry =
  moderator_id :: "int option"
  reason :: "string option"
  timestamp :: "int option"
  warning_id :: "int option"

text \<open>
  The value stored under a user's key is a list of warnings or something else; the value
  stored under \<open>warnings\<close> is a dict from \<open>str(user id)\<close> to such values, or
  something else. The code tests both with \<open>isinstance\<close>.
\<close>

datatype user_entry = NotAList | WarningList "warning_entry list"

datatype warnings_field = NotADict | WarningsDict "string \<rightharpoonup> user_entry"

text \<open>
  The configuration document of one guild. For the three settings read with
  \<open>config.get(key, default)\<close> and for \<open>warnings\<close>, \<open>None\<close> is an absent key; for
  the channel and role settings \<open>None\<close> is the JSON null.
\<close>

record guild_config =
  log_channel :: "int option"
  welcome_channel :: "int option"
  leave_channel :: "int option"
  verified_role :: "int option"
  mod_log_channel :: "int option"
  welcome_message :: string
  leave_message :: string
  warnings :: "warnings_field option"
  warn_threshold :: "int option"
  warn_action :: "string option"
  warn_timeout_duration :: "string option"

definition default_config :: guild_config where
  "default_config =
     \<lparr>log_channel = None, welcome_channel = None, leave_channel = None,
      verified_role = None, mod_log_channel = None,
      welcome_message = ''Welcome {user.mention} to {server.name}!'',
      leave_message = ''{user.name} has left {server.name}.'',
      warnings = Some (WarningsDict Map.empty),
      warn_threshold = Some 3,
      warn_action = Some ''timeout'',
      warn_timeout_duration = Some ''1h''\<rparr>"

text \<open>
  What \<open>open\<close> followed by \<open>json.load\<close> finds at \<open>config/<guild id>.json\<close>: no
  file (FileNotFoundError), text that is not JSON (JSONDecodeError), bytes that are not
  UTF-8 (UnicodeDecodeError, raised when \<open>json.load\<close> reads the file), a file that
  raises any other exception while it is opened, or a document. A document that was
  written by \<open>json.dump\<close> is read back as it was written.
\<close>

datatype config_file = NoFile | Malformed | NotUtf8 | Unreadable | Document guild_config

text \<open>
  How one call of \<open>save_config\<close> ends: the document is written; \<open>makedirs\<close> or
  \<open>open\<close> fails and the file is left as it was; or \<open>json.dump\<close> fails after
  \<open>open\<close> has truncated the file, which leaves an incomplete document.
\<close>

datatype write_outcome = Written | OpenFailed | DumpFailed

text \<open>
  The state outside a command: the files, the keys of the table \<open>_locks\<close>, and a log of
  the calls of \<open>save_config\<close> (kept for the properties; the program has no such log).
  Commands run one after the other here, so a lock is free whenever it is acquired and
  \<open>async with\<close> changes nothing but the table.
\<close>

record world =
  files :: "int \<Rightarrow> config_file"
  locks :: "int set"
  save_log :: "(int \<times> guild_config) list"

definition get_guild_lock :: "world \<Rightarrow> int \<Rightarrow> world" where
  "get_guild_lock w guild_id = w\<lparr>locks := insert guild_id (locks w)\<rparr>"

definition get_config :: "world \<Rightarrow> int \<Rightarrow> world \<times> (py_error + guild_config)" where
  "get_config w guild_id =
     (let w' = get_guild_lock w guild_id in
      (w', case files w' guild_id of
             Document d \<Rightarrow> Inr d
           | NoFile \<Rightarrow> Inr default_config
           | Malformed \<Rightarrow> Inr default_config
           | NotUtf8 \<Rightarrow> Inl UnicodeDecodeError
           | Unreadable \<Rightarrow> Inl ReadError))"

definition save_config :: "write_outcome \<Rightarrow> world \<Rightarrow> int \<Rightarrow> guild_config \<Rightarrow> world" where
  "save_config io w guild_id data =
     (let w' = get_guild_lock w guild_id in
      w'\<lparr>files :=
           (case io of
              Written \<Rightarrow> (files w')(guild_id := Document data)
            | OpenFailed \<Rightarrow> files w'
            | DumpFailed \<Rightarrow> (files w')(guild_id := Malformed)),
         save_log := save_log w' @ [(guild_id, data)]\<rparr>)"

section \<open>cogs/moderation.py: the eligibility check\<close>

text \<open>
  A guild member: the user id, the top role as its rank in the role hierarchy (discord.py
  orders the roles of a guild linearly), and the three permissions the warning system
  asks the bot for. Two members are equal when their ids are.
\<close>

record permissions =
  moderate_members :: bool
  kick_members :: bool
  ban_members :: bool

record member =
  member_id :: int
  top_role :: int
  guild_permissions :: permissions

text \<open>
  The part of \<open>commands.Context\<close> the commands read: \<open>ctx.author\<close>,
  \<open>ctx.guild.id\<close>, \<open>ctx.guild.owner\<close> and \<open>ctx.guild.me\<close> (either may be None).
\<close>

record command_context =
  author :: member
  guild_id :: int
  guild_owner :: "member option"
  guild_me :: "member option"

definition same_member :: "member \<Rightarrow> member \<Rightarrow> bool" where
  "same_member a b = (member_id a = member_id b)"

text \<open>\<open>ctx.author != ctx.guild.owner\<close>\<close>

definition author_is_not_owner :: "command_context \<Rightarrow> bool" where
  "author_is_not_owner ctx =
     (case guild_owner ctx of None \<Rightarrow> True | Some ow \<Rightarrow> \<not> same_member (author ctx) ow)"

datatype rejection =
  SelfModeration | BotOwner | NoBotMember | BotHierarchy | ModeratorHierarchy

text \<open>
  \<open>_check_moderation_permissions\<close>: \<open>None\<close> is the result True; \<open>Some r\<close> is the
  result False after the message of rejection \<open>r\<close> was sent. \<open>is_owner\<close> is
  \<open>bot.is_owner\<close>, told by the user id.
\<close>

definition check_moderation_permissions ::
    "(int \<Rightarrow> bool) \<Rightarrow> command_context \<Rightarrow> member \<Rightarrow> rejection option" where
  "check_moderation_permissions is_owner ctx member =
     (if same_member member (author ctx) then Some SelfModeration
      else if is_owner (member_id member) then Some BotOwner
      else (case guild_me ctx of
              None \<Rightarrow> Some NoBotMember
            | Some me \<Rightarrow>
                if top_role me \<le> top_role member then Some BotHierarchy
                else if author_is_not_owner ctx \<and> top_role (author ctx) \<le> top_role member
                then Some ModeratorHierarchy
                else None))"

text \<open>
  The checks as the specification lists them, each with the condition that rejects, and
  the rule "the first failing check wins" over any list of checks.
\<close>

definition eligibility_checks ::
    "(int \<Rightarrow> bool) \<Rightarrow> command_context \<Rightarrow> member \<Rightarrow> (rejection \<times> bool) list" where
  "eligibility_checks is_owner ctx member =
     [(SelfModeration, same_member member (author ctx)),
      (BotOwner, is_owner (member_id member)),
      (NoBotMember, guild_me ctx = None),
      (BotHierarchy,
         (case guild_me ctx of None \<Rightarrow> False | Some me \<Rightarrow> top_role me \<le> top_role member)),
      (ModeratorHierarchy,
         author_is_not_owner ctx \<and> top_role (author ctx) \<le> top_role member)]"

definition first_failing :: "(rejection \<times> bool) list \<Rightarrow> rejection option" where
  "first_failing checks = map_option fst (find snd checks)"

section \<open>cogs/moderation.py: the warning system\<close>

text \<open>Lines 466 to 475 of \<open>warn\<close>: the warning is appended to the user's list.\<close>

definition append_warning :: "guild_config \<Rightarrow> string \<Rightarrow> warning_entry \<Rightarrow> guild_config" where
  "append_warning config user_id_str warning =
     (let m = (case warnings config of Some (WarningsDict m) \<Rightarrow> m | _ \<Rightarrow> Map.empty);
          ws = (case m user_id_str of Some (WarningList ws) \<Rightarrow> ws | _ \<Rightarrow> [])
      in config\<lparr>warnings := Some (WarningsDict (m(user_id_str \<mapsto> WarningList (ws @ [warning]))))\<rparr>)"

text \<open>\<open>len(config["warnings"][user_id_str])\<close>, read after the append.\<close>

definition count_warnings :: "guild_config \<Rightarrow> string \<Rightarrow> nat" where
  "count_warnings config user_id_str =
     (case warnings config of
        Some (WarningsDict m) \<Rightarrow>
          (case m user_id_str of Some (WarningList ws) \<Rightarrow> length ws | _ \<Rightarrow> 0)
      | _ \<Rightarrow> 0)"

text \<open>Lines 505 to 507: the three settings of the automatic action, with their defaults.\<close>

definition threshold_of :: "guild_config \<Rightarrow> int" where
  "threshold_of config = (case warn_threshold config of None \<Rightarrow> 0 | Some t \<Rightarrow> t)"

definition action_of :: "guild_config \<Rightarrow> string" where
  "action_of config = lower (case warn_action config of None \<Rightarrow> ''none'' | Some a \<Rightarrow> a)"

definition action_duration_str :: "guild_config \<Rightarrow> string" where
  "action_duration_str config =
     (case warn_timeout_duration config of None \<Rightarrow> ''1h'' | Some d \<Rightarrow> d)"

text \<open>Line 509: the condition under which the automatic action is triggered.\<close>

definition auto_action_triggered :: "guild_config \<Rightarrow> nat \<Rightarrow> bool" where
  "auto_action_triggered config warnings_count =
     (threshold_of config > 0 \<and> int warnings_count \<ge> threshold_of config \<and> action_of config \<noteq> ''none'')"

text \<open>
  Lines 518 to 558: what the bot asks of the platform once the action is triggered. The
  platform's answer to the request (the calls are wrapped in \<open>try\<close>) is outside the model.
\<close>

datatype auto_action =
  TimeoutFor int | DurationConfigError | KickMember | BanMember | NoActionTaken

definition timeout_action :: "nat \<Rightarrow> guild_config \<Rightarrow> py_error + auto_action" where
  "timeout_action max_str_digits config =
     (case parse_duration max_str_digits (action_duration_str config) of
        Inl e \<Rightarrow> Inl e
      | Inr None \<Rightarrow> Inr DurationConfigError
      | Inr (Some d) \<Rightarrow>
          if d \<noteq> 0 \<and> d > 0 \<and> d \<le> 28 * 86400 then Inr (TimeoutFor d)
          else Inr DurationConfigError)"

definition perform_auto_action ::
    "nat \<Rightarrow> member option \<Rightarrow> guild_config \<Rightarrow> py_error + auto_action" where
  "perform_auto_action max_str_digits me config =
     (let action = action_of config in
      if action = ''timeout'' then
        (case me of
           None \<Rightarrow> Inl AttributeError
         | Some b \<Rightarrow>
             if moderate_members (guild_permissions b)
             then timeout_action max_str_digits config
             else Inr NoActionTaken)
      else if action = ''kick'' then
        (case me of
           None \<Rightarrow> Inl AttributeError
         | Some b \<Rightarrow> if kick_members (guild_permissions b) then Inr KickMember else Inr NoActionTaken)
      else if action = ''ban'' then
        (case me of
           None \<Rightarrow> Inl AttributeError
         | Some b \<Rightarrow> if ban_members (guild_permissions b) then Inr BanMember else Inr NoActionTaken)
      else Inr NoActionTaken)"

text \<open>
  How \<open>warn\<close> ends: without a reason, refused by the eligibility check, or with the
  warning recorded; then the result carries the user's new number of warnings and the
  automatic action, \<open>None\<close> when none was triggered.
\<close>

datatype warn_outcome =
  ReasonMissing | Rejected rejection | Warned nat "auto_action option"

text \<open>
  How the platform answers a call of \<open>send\<close>: the message is delivered, the call
  raises \<open>discord.Forbidden\<close>, or it raises another \<open>discord.HTTPException\<close>.
\<close>

datatype send_result = Delivered | SendForbidden | SendFailed

text \<open>
  What the platform does with the messages \<open>warn\<close> sends between the save and the
  test of the threshold: the answer to the confirmation (line 489), the result of
  \<open>_send_dm_notification\<close> (line 497, which catches what the direct message raises), and
  the answer to the follow-up in the channel (line 501), sent when there was no direct
  message.
\<close>

record platform =
  confirm_send :: send_result
  dm_sent :: bool
  followup_send :: send_result

text \<open>
  Lines 482 to 502 of \<open>warn\<close>: the exception that leaves the command there, if any.
  The confirmation is sent outside any \<open>try\<close>; it carries the reason as the value of an
  embed field, and the platform refuses a field value of more than 1024 characters (the
  length \<open>_create_mod_log_embed\<close> cuts the reason to). The follow-up is sent inside a
  \<open>try\<close> that catches \<open>discord.Forbidden\<close> only. The call of the logging function
  between them catches what its own send raises, and reads the document that was just
  read or saved; it raises nothing and changes nothing.
\<close>

definition notify :: "platform \<Rightarrow> string option \<Rightarrow> py_error option" where
  "notify pf reason_arg =
     (case (if (case reason_arg of None \<Rightarrow> False | Some r \<Rightarrow> length r > 1024)
            then SendFailed else confirm_send pf) of
        SendForbidden \<Rightarrow> Some Forbidden
      | SendFailed \<Rightarrow> Some HTTPException
      | Delivered \<Rightarrow>
          if dm_sent pf then None
          else (case followup_send pf of
                  SendFailed \<Rightarrow> Some HTTPException
                | SendForbidden \<Rightarrow> None
                | Delivered \<Rightarrow> None))"

text \<open>
  \<open>warn\<close>. \<open>now\<close> is \<open>int(time.time())\<close>, \<open>io\<close> the fate of the one call of
  \<open>save_config\<close>, \<open>pf\<close> the platform's answers to the messages. The world is
  returned beside the result, since the document is saved before a message or the
  automatic action can raise.
\<close>

definition warn ::
    "nat \<Rightarrow> (int \<Rightarrow> bool) \<Rightarrow> write_outcome \<Rightarrow> platform \<Rightarrow> int \<Rightarrow> command_context
       \<Rightarrow> member \<Rightarrow> string option \<Rightarrow> world \<Rightarrow> world \<times> (py_error + warn_outcome)" where
  "warn max_str_digits is_owner io pf now ctx member reason_arg w =
     (if reason_arg = None \<or> reason_arg = Some [] then (w, Inr ReasonMissing)
      else
        (case check_moderation_permissions is_owner ctx member of
           Some r \<Rightarrow> (w, Inr (Rejected r))
         | None \<Rightarrow>
             (case get_config w (guild_id ctx) of
                (w1, Inl e) \<Rightarrow> (w1, Inl e)
              | (w1, Inr config) \<Rightarrow>
                  (let user_id_str = py_str (member_id member);
                       warning = \<lparr>moderator_id = Some (member_id (author ctx)),
                                  reason = reason_arg,
                                  timestamp = Some now,
                                  warning_id = Some now\<rparr>;
                       config' = append_warning config user_id_str warning;
                       w2 = save_config io w1 (guild_id ctx) config';
                       warnings_count = count_warnings config' user_id_str
                   in case notify pf reason_arg of
                        Some e \<Rightarrow> (w2, Inl e)
                      | None \<Rightarrow>
                          if auto_action_triggered config' warnings_count
                          then (case perform_auto_action max_str_digits (guild_me ctx)
                                       config' of
                                  Inl e \<Rightarrow> (w2, Inl e)
                                | Inr a \<Rightarrow> (w2, Inr (Warned warnings_count (Some a))))
                          else (w2, Inr (Warned warnings_count None))))))"

text \<open>
  Line 655: the identifier a stored warning is compared by, \<open>w.get('id',
  w.get('timestamp', 0))\<close>.
\<close>

definition warning_key :: "warning_entry \<Rightarrow> int" where
  "warning_key w =
     (case warning_id w of
        Some i \<Rightarrow> i
      | None \<Rightarrow> (case timestamp w of Some t \<Rightarrow> t | None \<Rightarrow> 0))"

text \<open>
  What \<open>clearwarns\<close> tells the caller, and its result: the reply, the final value of
  \<open>cleared_count\<close> and the document in memory when the command ends.
\<close>

datatype clear_reply =
  InvalidStructure | NoWarningsToClear | NotFound int | InvalidInput
  | ClearedAll nat | ClearedId int

record clear_result =
  reply :: clear_reply
  cleared_count :: nat
  config_after :: guild_config

text \<open>Lines 646 to 647 and 660: \<open>del config["warnings"][user_id_str]\<close>.\<close>

definition delete_user :: "guild_config \<Rightarrow> string \<Rightarrow> guild_config" where
  "delete_user config user_id_str =
     (case warnings config of
        Some (WarningsDict m) \<Rightarrow> config\<lparr>warnings := Some (WarningsDict (m(user_id_str := None)))\<rparr>
      | _ \<Rightarrow> config)"

text \<open>Line 662: \<open>config["warnings"][user_id_str] = new_warnings\<close>.\<close>

definition store_user :: "guild_config \<Rightarrow> string \<Rightarrow> warning_entry list \<Rightarrow> guild_config" where
  "store_user config user_id_str new_warnings =
     (case warnings config of
        Some (WarningsDict m) \<Rightarrow>
          config\<lparr>warnings := Some (WarningsDict (m(user_id_str \<mapsto> WarningList new_warnings)))\<rparr>
      | _ \<Rightarrow> config)"

text \<open>
  \<open>clearwarns\<close>. \<open>to_int\<close> is Python's \<open>int\<close> on the text the caller typed:
  \<open>Some n\<close> when it returns \<open>n\<close>, \<open>None\<close> when it raises ValueError. \<open>io\<close> is the
  fate of the call of \<open>save_config\<close>, if there is one.
\<close>

definition clearwarns ::
    "(string \<Rightarrow> int option) \<Rightarrow> write_outcome \<Rightarrow> command_context \<Rightarrow> member \<Rightarrow> string
       \<Rightarrow> world \<Rightarrow> world \<times> (py_error + clear_result)" where
  "clearwarns to_int io ctx member warning_ref w =
     (case get_config w (guild_id ctx) of
        (w1, Inl e) \<Rightarrow> (w1, Inl e)
      | (w1, Inr config) \<Rightarrow>
          (let user_id_str = py_str (member_id member);
               stop = (\<lambda>r. (w1, Inr \<lparr>reply = r, cleared_count = 0, config_after = config\<rparr>));
               finish = (\<lambda>r n c.
                  if n > 0
                  then (save_config io w1 (guild_id ctx) c,
                        Inr \<lparr>reply = r, cleared_count = n, config_after = c\<rparr>)
                  else (w1, Inr \<lparr>reply = r, cleared_count = n, config_after = c\<rparr>))
           in case (case warnings config of None \<Rightarrow> WarningsDict Map.empty | Some d \<Rightarrow> d) of
                NotADict \<Rightarrow> stop InvalidStructure
              | WarningsDict m \<Rightarrow>
                  (case (case m user_id_str of None \<Rightarrow> WarningList [] | Some e \<Rightarrow> e) of
                     NotAList \<Rightarrow> stop NoWarningsToClear
                   | WarningList user_warnings \<Rightarrow>
                       if user_warnings = [] then stop NoWarningsToClear
                       else if lower warning_ref = ''all''
                       then finish (ClearedAll (length user_warnings)) (length user_warnings)
                              (delete_user config user_id_str)
                       else
                         (case to_int warning_ref of
                            None \<Rightarrow> stop InvalidInput
                          | Some target_id \<Rightarrow>
                              (let new_warnings =
                                     filter (\<lambda>w. warning_key w \<noteq> target_id) user_warnings;
                                   n = length user_warnings - length new_warnings
                               in if n > 0
                                  then finish (ClearedId target_id) n
                                         (if new_warnings = []
                                          then delete_user config user_id_str
                                          else store_user config user_id_str new_warnings)
                                  else stop (NotFound target_id))))))"

text \<open>
  Lines 576 to 579 of the command \<open>warnings\<close>: the list of warnings it finds for a
  user; a missing key and a value of the wrong type both give the empty list.
\<close>

definition stored_warnings :: "guild_config \<Rightarrow> string \<Rightarrow> warning_entry list" where
  "stored_warnings config user_id_str =
     (case warnings config of
        Some (WarningsDict m) \<Rightarrow>
          (case m user_id_str of Some (WarningList ws) \<Rightarrow> ws | _ \<Rightarrow> [])
      | _ \<Rightarrow> [])"

text \<open>
  The value under a user's key in the warnings of a document, \<open>None\<close> when the key is
  absent, and the invariant that no key holds an empty list.
\<close>

definition lookup_user :: "guild_config \<Rightarrow> string \<Rightarrow> user_entry option" where
  "lookup_user config user_id_str =
     (case warnings config of Some (WarningsDict m) \<Rightarrow> m user_id_str | _ \<Rightarrow> None)"

definition no_empty_entries :: "guild_config \<Rightarrow> bool" where
  "no_empty_entries config = (\<forall>u. lookup_user config u \<noteq> Some (WarningList []))"

section \<open>Example inputs\<close>

text \<open>
  A guild 42 with a moderator, a member to be warned and the bot's own member, whose top
  role is above both.
\<close>

definition moderator :: member where
  "moderator = \<lparr>member_id = 1, top_role = 5,
     guild_permissions = \<lparr>moderate_members = False, kick_members = True, ban_members = False\<rparr>\<rparr>"

definition offender :: member where
  "offender = \<lparr>member_id = 7, top_role = 1,
     guild_permissions = \<lparr>moderate_members = False, kick_members = False, ban_members = False\<rparr>\<rparr>"

definition bot_member :: member where
  "bot_member = \<lparr>member_id = 99, top_role = 10,
     guild_permissions = \<lparr>moderate_members = True, kick_members = True, ban_members = True\<rparr>\<rparr>"

definition example_ctx :: command_context where
  "example_ctx = \<lparr>author = moderator, guild_id = 42, guild_owner = None,
                   guild_me = Some bot_member\<rparr>"

definition nobody :: "int \<Rightarrow> bool" where
  "nobody u = False"

text \<open>The owner of guild 42, who outranks the bot, as the author of a command.\<close>

definition guild_owner_member :: member where
  "guild_owner_member = \<lparr>member_id = 2, top_role = 20,
     guild_permissions = \<lparr>moderate_members = True, kick_members = True, ban_members = True\<rparr>\<rparr>"

definition owner_ctx :: command_context where
  "owner_ctx = \<lparr>author = guild_owner_member, guild_id = 42,
                 guild_owner = Some guild_owner_member, guild_me = Some bot_member\<rparr>"

text \<open>
  The same guild with a bot that may not moderate members, a platform that delivers
  every message, and one that refuses the confirmation.
\<close>

definition weak_bot_ctx :: command_context where
  "weak_bot_ctx = \<lparr>author = moderator, guild_id = 42, guild_owner = None,
     guild_me = Some (bot_member\<lparr>guild_permissions :=
       \<lparr>moderate_members = False, kick_members = True, ban_members = True\<rparr>\<rparr>)\<rparr>"

definition delivering :: platform where
  "delivering = \<lparr>confirm_send = Delivered, dm_sent = True, followup_send = Delivered\<rparr>"

definition refusing :: platform where
  "refusing = \<lparr>confirm_send = SendForbidden, dm_sent = True, followup_send = Delivered\<rparr>"

text \<open>
  A world with no file, a world where the file of every guild is not UTF-8, and a world
  where guild 42 has the document \<open>c\<close>.
\<close>

definition garbled_world :: world where
  "garbled_world = \<lparr>files = (\<lambda>g. NotUtf8), locks = {}, save_log = []\<rparr>"


definition empty_world :: world where
  "empty_world = \<lparr>files = (\<lambda>g. NoFile), locks = {}, save_log = []\<rparr>"

definition world_with :: "guild_config \<Rightarrow> world" where
  "world_with c = \<lparr>files = (\<lambda>g. if g = 42 then Document c else NoFile), locks = {},
                    save_log = []\<rparr>"

text \<open>A warning with the identifier \<open>i\<close>, as \<open>warn\<close> writes it.\<close>

definition warning_at :: "int \<Rightarrow> warning_entry" where
  "warning_at i = \<lparr>moderator_id = Some 1, reason = Some ''spam'', timestamp = Some i,
                    warning_id = Some i\<rparr>"

text \<open>The default document with the warnings \<open>ws\<close> recorded for user 7.\<close>

definition config_with :: "warning_entry list \<Rightarrow> guild_config" where
  "config_with ws =
     default_config\<lparr>warnings := Some (WarningsDict [''7'' \<mapsto> WarningList ws])\<rparr>"

text \<open>The same document with the action \<open>kick\<close> in place of \<open>timeout\<close>.\<close>

definition kick_config :: "warning_entry list \<Rightarrow> guild_config" where
  "kick_config ws = (config_with ws)\<lparr>warn_action := Some ''kick''\<rparr>"

text \<open>Python's \<open>int\<close> on the texts the examples use.\<close>

definition example_int :: "string \<Rightarrow> int option" where
  "example_int s =
     (if s \<noteq> [] \<and> list_all is_digit s then Some (decimal s) else None)"

section \<open>Properties of the duration parser\<close>

lemmas parser_defs =
  parse_duration_def re_match_def lower_def lower_char_def is_digit_def
  py_int_def decimal_def digit_val_def timedelta_def

text \<open>
  The strings the regular expression matches: a non-empty run of digits and one unit
  letter, and then nothing or one line feed.
\<close>

lemma re_match_Some_iff:
  "re_match s = Some (ds, u) \<longleftrightarrow>
     ds \<noteq> [] \<and> list_all is_digit ds \<and> u \<in> set ''smhd'' \<and>
     (s = ds @ [u] \<or> s = ds @ [u, CHR 0x0A])"
proof
  assume m: "re_match s = Some (ds, u)"
  obtain after where r: "dropWhile is_digit s = u # after" and d: "ds = takeWhile is_digit s"
    and ne: "ds \<noteq> []" and uu: "u \<in> set ''smhd''" and ad: "at_dollar after"
    using m by (auto simp: re_match_def Let_def split: if_splits list.splits)
  have s: "s = ds @ u # after"
    using r d by (metis takeWhile_dropWhile_id)
  have "after = [] \<or> after = [CHR 0x0A]"
    using ad by (cases after rule: at_dollar.cases) auto
  moreover have "list_all is_digit ds"
    using d by (simp add: list_all_iff) (meson set_takeWhileD)
  ultimately show "ds \<noteq> [] \<and> list_all is_digit ds \<and> u \<in> set ''smhd'' \<and>
     (s = ds @ [u] \<or> s = ds @ [u, CHR 0x0A])"
    using ne uu s by auto
next
  assume a: "ds \<noteq> [] \<and> list_all is_digit ds \<and> u \<in> set ''smhd'' \<and>
     (s = ds @ [u] \<or> s = ds @ [u, CHR 0x0A])"
  then have nd: "\<not> is_digit u"
    by (auto simp: is_digit_def)
  from a obtain after where s: "s = ds @ u # after" and ad: "at_dollar after"
    by auto
  have all: "\<forall>x\<in>set ds. is_digit x"
    using a by (simp add: list_all_iff)
  have t: "takeWhile is_digit s = ds"
    unfolding s using all nd by simp
  have dr: "dropWhile is_digit s = u # after"
    unfolding s using all nd by simp
  show "re_match s = Some (ds, u)"
    using a t dr ad by (simp add: re_match_def)
qed

text \<open>
  A duration that is returned is positive, at most 28 days, and the magnitude times the
  unit: nothing is clamped.
\<close>

lemma parse_duration_Some:
  assumes "parse_duration lim s = Inr (Some d)"
  shows "0 < d \<and> d \<le> 28 * 86400 \<and>
         (\<exists>ds u. re_match (lower s) = Some (ds, u) \<and>
            d = decimal ds * (if u = CHR ''s'' then 1 else if u = CHR ''m'' then 60
                              else if u = CHR ''h'' then 3600 else 86400))"
proof (cases "re_match (lower s)")
  case None
  then show ?thesis using assms by (simp add: parse_duration_def)
next
  case (Some p)
  obtain ds u where p: "p = (ds, u)" by (cases p)
  have m: "re_match (lower s) = Some (ds, u)" using Some p by simp
  show ?thesis
  proof (cases "py_int lim ds")
    case (Inl e)
    then show ?thesis using assms m by (simp add: parse_duration_def split: if_splits)
  next
    case (Inr v)
    then have v: "v = decimal ds" by (simp add: py_int_def split: if_splits)
    have pos: "0 < v" using assms m Inr by (simp add: parse_duration_def split: if_splits)
    consider "u = CHR ''s''" | "u = CHR ''m''" | "u = CHR ''h''" | "u = CHR ''d''"
      using m by (auto simp: re_match_def Let_def split: if_splits list.splits)
    then show ?thesis
    proof cases
      case 1
      then show ?thesis using assms m Inr pos v
        by (simp add: parse_duration_def timedelta_def split: if_splits)
    next
      case 2
      then show ?thesis using assms m Inr pos v
        by (simp add: parse_duration_def timedelta_def split: if_splits)
    next
      case 3
      then show ?thesis using assms m Inr pos v
        by (simp add: parse_duration_def timedelta_def split: if_splits)
    next
      case 4
      then show ?thesis using assms m Inr pos v
        by (simp add: parse_duration_def timedelta_def split: if_splits)
    qed
  qed
qed

text \<open>The examples at the bound of 28 days.\<close>

lemma parse_duration_examples:
  "parse_duration lim ''28d'' = Inr (Some 2419200)"
  "parse_duration lim ''29d'' = Inr None"
  "parse_duration lim ''672h'' = Inr (Some 2419200)"
  "parse_duration lim ''673h'' = Inr None"
  "parse_duration lim ''0m'' = Inr None"
  "parse_duration lim ''-5m'' = Inr None"
  "parse_duration lim ''5'' = Inr None"
  "parse_duration lim ''5x'' = Inr None"
  "parse_duration lim '' 5m'' = Inr None"
  "parse_duration lim ''1h'' = Inr (Some 3600)"
  by (simp_all add: parser_defs)

text \<open>
  C3. The parser is meant to accept a string only when the whole of it is a run of digits
  and one unit letter. The string \<open>5m\<close> followed by a line feed is accepted, as five
  minutes: \<open>$\<close> also matches before a line feed that ends the string.
\<close>

theorem parse_duration_trailing_newline:
  "parse_duration lim ''5m\<newline>'' = Inr (Some 300)"
  by (simp add: parser_defs)

text \<open>
  C5. A duration above 28 days is meant to give None. From \<open>1000000000d\<close> the parser
  raises OverflowError instead: the timedelta is built outside the \<open>try\<close>, and a
  thousand million days are more than a timedelta holds.
\<close>

theorem parse_duration_overflow:
  "parse_duration lim ''1000000000d'' = Inl OverflowError"
  by (simp add: parser_defs)

section \<open>Properties of the eligibility check\<close>

text \<open>The check accepts when no condition of the list holds, whatever the order.\<close>

lemma first_failing_None_iff:
  "first_failing cs = None \<longleftrightarrow> (\<forall>c \<in> set cs. \<not> snd c)"
  by (force simp: first_failing_def find_None_iff)

lemma first_failing_permutation:
  assumes "mset cs = mset ds"
  shows "(first_failing cs = None) = (first_failing ds = None)"
  using mset_eq_setD [OF assms] by (simp add: first_failing_None_iff)

lemma check_is_first_failing:
  "check_moderation_permissions is_owner ctx member =
     first_failing (eligibility_checks is_owner ctx member)"
  by (auto simp: check_moderation_permissions_def first_failing_def eligibility_checks_def
           split: option.splits)

lemma check_example [simp]:
  "check_moderation_permissions nobody example_ctx offender = None"
  by (simp add: check_moderation_permissions_def example_ctx_def offender_def moderator_def
        bot_member_def nobody_def same_member_def author_is_not_owner_def)

text \<open>
  C8. The check rejects with the first failing check of the list: self-moderation, the
  bot's owner as the target, (the bot's own member missing,) the bot's rank not above the
  target's, and the author's rank not above the target's unless the author owns the
  guild. The reasons are distinct. When the target is the author the reason is
  self-moderation, also when the author owns the guild. Any reordering of the checks
  accepts exactly the same inputs.
\<close>

theorem check_moderation_permissions_order:
  "check_moderation_permissions is_owner ctx member =
     first_failing (eligibility_checks is_owner ctx member)
   \<and> map fst (eligibility_checks is_owner ctx member) =
       [SelfModeration, BotOwner, NoBotMember, BotHierarchy, ModeratorHierarchy]
   \<and> distinct (map fst (eligibility_checks is_owner ctx member))
   \<and> (same_member member (author ctx) \<longrightarrow>
        check_moderation_permissions is_owner ctx member = Some SelfModeration)
   \<and> (\<forall>cs. mset cs = mset (eligibility_checks is_owner ctx member) \<longrightarrow>
         (first_failing cs = None) = (check_moderation_permissions is_owner ctx member = None))"
proof -
  have 1: "check_moderation_permissions is_owner ctx member =
     first_failing (eligibility_checks is_owner ctx member)"
    by (rule check_is_first_failing)
  have 2: "map fst (eligibility_checks is_owner ctx member) =
       [SelfModeration, BotOwner, NoBotMember, BotHierarchy, ModeratorHierarchy]"
    by (simp add: eligibility_checks_def)
  have 3: "distinct (map fst (eligibility_checks is_owner ctx member))"
    unfolding 2 by simp
  have 4: "same_member member (author ctx) \<longrightarrow>
        check_moderation_permissions is_owner ctx member = Some SelfModeration"
    by (simp add: check_moderation_permissions_def)
  have 5: "\<forall>cs. mset cs = mset (eligibility_checks is_owner ctx member) \<longrightarrow>
         (first_failing cs = None) = (check_moderation_permissions is_owner ctx member = None)"
    unfolding 1 using first_failing_permutation by blast
  show ?thesis using 1 2 3 4 5 by blast
qed

theorem check_moderation_permissions_order_witness:
  "same_member guild_owner_member (author owner_ctx)
   \<and> \<not> author_is_not_owner owner_ctx
   \<and> check_moderation_permissions nobody owner_ctx guild_owner_member = Some SelfModeration
   \<and> mset (rev (eligibility_checks nobody owner_ctx guild_owner_member))
       = mset (eligibility_checks nobody owner_ctx guild_owner_member)
   \<and> first_failing (rev (eligibility_checks nobody owner_ctx guild_owner_member)) = Some BotHierarchy
   \<and> mset (rev (eligibility_checks nobody example_ctx offender))
       = mset (eligibility_checks nobody example_ctx offender)
   \<and> first_failing (rev (eligibility_checks nobody example_ctx offender)) = None
   \<and> check_moderation_permissions nobody example_ctx offender = None"
proof -
  have s: "same_member guild_owner_member (author owner_ctx)"
    by (simp add: same_member_def owner_ctx_def)
  have o: "\<not> author_is_not_owner owner_ctx"
    by (simp add: author_is_not_owner_def owner_ctx_def same_member_def)
  have m: "mset (rev cs) = mset cs" for cs :: "(rejection \<times> bool) list" by simp
  have r1: "first_failing (rev (eligibility_checks nobody owner_ctx guild_owner_member)) = Some BotHierarchy"
    by (simp add: first_failing_def eligibility_checks_def owner_ctx_def guild_owner_member_def
          bot_member_def nobody_def same_member_def author_is_not_owner_def)
  note t1 = check_moderation_permissions_order [of nobody owner_ctx guild_owner_member]
  note t2 = check_moderation_permissions_order [of nobody example_ctx offender]
  have a: "check_moderation_permissions nobody owner_ctx guild_owner_member = Some SelfModeration"
    using t1 s by blast
  have "\<forall>cs. mset cs = mset (eligibility_checks nobody example_ctx offender) \<longrightarrow>
         (first_failing cs = None) =
         (check_moderation_permissions nobody example_ctx offender = None)"
    using t2 by (elim conjE)
  then have b: "first_failing (rev (eligibility_checks nobody example_ctx offender)) = None"
    using m [of "eligibility_checks nobody example_ctx offender"] check_example by simp
  have c: "check_moderation_permissions nobody example_ctx offender = None"
    by simp
  show ?thesis
    by (intro conjI s o a m r1 b c)
qed

section \<open>Properties of the configuration store\<close>

text \<open>
  When the guild's file is missing or is text that is not JSON, \<open>get_config\<close> raises
  nothing and returns the default document, the same one in both cases.
\<close>

lemma get_config_missing_or_malformed:
  assumes "files w gid = NoFile \<or> files w gid = Malformed"
  shows "snd (get_config w gid) = Inr default_config"
  using assms by (auto simp: get_config_def get_guild_lock_def Let_def)

text \<open>
  C6. A file that fails to parse is meant to give the default document, without an
  exception. A file whose bytes are not UTF-8 fails to parse with UnicodeDecodeError,
  which \<open>get_config\<close> does not catch: the exception leaves the function.
\<close>

theorem get_config_not_utf8:
  "snd (get_config garbled_world 42) = Inl UnicodeDecodeError"
  by (simp add: get_config_def get_guild_lock_def garbled_world_def Let_def)

section \<open>Properties of the warning system\<close>

text \<open>Appending a warning changes the user's list and none of the three settings.\<close>

lemma threshold_of_append [simp]: "threshold_of (append_warning c u e) = threshold_of c"
  by (simp add: threshold_of_def append_warning_def Let_def)

lemma action_of_append [simp]: "action_of (append_warning c u e) = action_of c"
  by (simp add: action_of_def append_warning_def Let_def)

lemma action_duration_str_append [simp]:
  "action_duration_str (append_warning c u e) = action_duration_str c"
  by (simp add: action_duration_str_def append_warning_def Let_def)

lemma timeout_action_append [simp]:
  "timeout_action lim (append_warning c u e) = timeout_action lim c"
  by (simp add: timeout_action_def)

lemma perform_auto_action_append [simp]:
  "perform_auto_action lim me (append_warning c u e) = perform_auto_action lim me c"
  by (simp add: perform_auto_action_def Let_def split: option.splits)

lemma count_warnings_append [simp]:
  "count_warnings (append_warning c u e) u = count_warnings c u + 1"
  by (simp add: count_warnings_def append_warning_def Let_def
           split: option.splits warnings_field.splits user_entry.splits)

lemma warn_recorded:
  assumes "reason_arg \<noteq> None" and "reason_arg \<noteq> Some []"
    and "check_moderation_permissions is_owner ctx member = None"
    and "snd (get_config w (guild_id ctx)) = Inr config"
  shows "warn lim is_owner io pf now ctx member reason_arg w =
           (let config' = append_warning config (py_str (member_id member))
                            \<lparr>moderator_id = Some (member_id (author ctx)), reason = reason_arg,
                             timestamp = Some now, warning_id = Some now\<rparr>;
                n = count_warnings config (py_str (member_id member)) + 1
            in (save_config io (get_guild_lock w (guild_id ctx)) (guild_id ctx) config',
                case notify pf reason_arg of
                  Some e \<Rightarrow> Inl e
                | None \<Rightarrow>
                    if auto_action_triggered config n
                    then (case perform_auto_action lim (guild_me ctx) config of
                            Inl e \<Rightarrow> Inl e
                          | Inr a \<Rightarrow> Inr (Warned n (Some a)))
                    else Inr (Warned n None)))"
proof -
  have g: "get_config w (guild_id ctx) = (get_guild_lock w (guild_id ctx), Inr config)"
    using assms(4) by (simp add: get_config_def Let_def)
  have t: "auto_action_triggered (append_warning config u e) k = auto_action_triggered config k"
    for u e k by (simp add: auto_action_triggered_def)
  show ?thesis
    using assms(1-3) by (simp add: warn_def g Let_def t split: sum.splits option.splits)
qed

text \<open>A document that was saved is the document the next command reads.\<close>

lemma get_config_after_save:
  "snd (get_config (save_config Written w g c) g) = Inr c"
  by (simp add: get_config_def save_config_def get_guild_lock_def Let_def)

lemma warn_saved:
  assumes "reason_arg \<noteq> None" and "reason_arg \<noteq> Some []"
    and "check_moderation_permissions is_owner ctx member = None"
    and "snd (get_config w (guild_id ctx)) = Inr config"
  shows "snd (get_config (fst (warn lim is_owner Written pf now ctx member reason_arg w))
                (guild_id ctx)) =
           Inr (append_warning config (py_str (member_id member))
                  \<lparr>moderator_id = Some (member_id (author ctx)), reason = reason_arg,
                   timestamp = Some now, warning_id = Some now\<rparr>)"
  by (simp add: warn_recorded [OF assms] Let_def get_config_after_save)

text \<open>Facts about the example inputs.\<close>

lemma py_str_7 [simp]: "py_str 7 = ''7''"
  by code_simp

lemma guild_id_example [simp]: "guild_id example_ctx = 42"
  by (simp add: example_ctx_def)

lemma member_id_offender [simp]: "member_id offender = 7"
  by (simp add: offender_def)

lemma get_config_world_with [simp]: "snd (get_config (world_with c) 42) = Inr c"
  by (simp add: get_config_def world_with_def get_guild_lock_def Let_def)

lemma count_config_with [simp]: "count_warnings (config_with ws) ''7'' = length ws"
  by (simp add: count_warnings_def config_with_def)

lemma threshold_config_with [simp]: "threshold_of (config_with ws\<lparr>warn_action := a\<rparr>) = 3"
  by (simp add: threshold_of_def config_with_def default_config_def)

lemma lower_kick [simp]: "lower ''kick'' = ''kick''"
  by (simp add: lower_def lower_char_def)

lemma lower_timeout [simp]: "lower ''timeout'' = ''timeout''"
  by (simp add: lower_def lower_char_def)

lemma notify_delivering [simp]:
  "length r \<le> 1024 \<Longrightarrow> notify delivering (Some r) = None"
  by (simp add: notify_def delivering_def)

lemma notify_refusing [simp]: "notify refusing (Some ''spam'') = Some Forbidden"
  by (simp add: notify_def refusing_def)

lemma action_kick_config [simp]: "action_of (kick_config ws) = ''kick''"
  by (simp add: action_of_def kick_config_def)

lemma threshold_kick_config [simp]: "threshold_of (kick_config ws) = 3"
  by (simp add: kick_config_def)

lemma count_kick_config [simp]: "count_warnings (kick_config ws) ''7'' = length ws"
  by (simp add: kick_config_def count_warnings_def config_with_def)

text \<open>
  When \<open>warn\<close> records a warning (a reason is given, the eligibility check passes and
  the document is read) and no message raises, the user's new number of warnings \<open>n\<close>
  is the old one plus one, and the automatic action is triggered exactly when the
  threshold is positive, \<open>n\<close> has reached the threshold and the action is not
  \<open>none\<close>.
\<close>

lemma warn_trigger_when_notified:
  assumes "reason_arg \<noteq> None" and "reason_arg \<noteq> Some []"
    and "check_moderation_permissions is_owner ctx member = None"
    and "snd (get_config w (guild_id ctx)) = Inr config"
    and "n = count_warnings config (py_str (member_id member)) + 1"
    and "notify pf reason_arg = None"
  shows "snd (warn lim is_owner io pf now ctx member reason_arg w) =
           (if threshold_of config > 0 \<and> int n \<ge> threshold_of config
               \<and> action_of config \<noteq> ''none''
            then (case perform_auto_action lim (guild_me ctx) config of
                    Inl e \<Rightarrow> Inl e
                  | Inr a \<Rightarrow> Inr (Warned n (Some a)))
            else Inr (Warned n None))"
  unfolding assms(5)
  by (simp add: warn_recorded [OF assms(1-4)] Let_def auto_action_triggered_def assms(6)
           split: sum.splits)

text \<open>
  With the threshold 3 and every message delivered, the second warning triggers nothing,
  the third triggers the action, and so does the fourth.
\<close>

lemma warn_threshold_examples:
  "snd (warn 4300 nobody Written delivering 1003 example_ctx offender (Some ''spam'')
          (world_with (kick_config [warning_at 1001]))) = Inr (Warned 2 None)"
  "snd (warn 4300 nobody Written delivering 1003 example_ctx offender (Some ''spam'')
          (world_with (kick_config [warning_at 1001, warning_at 1002])))
       = Inr (Warned 3 (Some KickMember))"
  "snd (warn 4300 nobody Written delivering 1004 example_ctx offender (Some ''spam'')
          (world_with (kick_config [warning_at 1001, warning_at 1002, warning_at 1003])))
       = Inr (Warned 4 (Some KickMember))"
proof -
  have r: "Some ''spam'' \<noteq> None" "Some ''spam'' \<noteq> Some []" by simp_all
  have c: "check_moderation_permissions nobody example_ctx offender = None" by simp
  have g: "snd (get_config (world_with (kick_config ws)) (guild_id example_ctx))
             = Inr (kick_config ws)" for ws by simp
  have n: "length ws + 1 = count_warnings (kick_config ws) (py_str (member_id offender)) + 1"
    for ws by simp
  have d: "notify delivering (Some ''spam'') = None" by simp
  have p: "perform_auto_action 4300 (guild_me example_ctx) (kick_config ws) = Inr KickMember"
    for ws by (simp add: perform_auto_action_def example_ctx_def bot_member_def)
  show "snd (warn 4300 nobody Written delivering 1003 example_ctx offender (Some ''spam'')
          (world_with (kick_config [warning_at 1001]))) = Inr (Warned 2 None)"
    by (simp add: warn_trigger_when_notified [OF r c g [of "[warning_at 1001]"] n d,
          where lim = 4300 and io = Written and now = 1003])
  show "snd (warn 4300 nobody Written delivering 1003 example_ctx offender (Some ''spam'')
          (world_with (kick_config [warning_at 1001, warning_at 1002])))
       = Inr (Warned 3 (Some KickMember))"
    by (simp add: warn_trigger_when_notified [OF r c g [of "[warning_at 1001, warning_at 1002]"] n d,
          where lim = 4300 and io = Written and now = 1003] p)
  show "snd (warn 4300 nobody Written delivering 1004 example_ctx offender (Some ''spam'')
          (world_with (kick_config [warning_at 1001, warning_at 1002, warning_at 1003])))
       = Inr (Warned 4 (Some KickMember))"
    by (simp add: warn_trigger_when_notified [OF r c g [of "[warning_at 1001, warning_at 1002, warning_at 1003]"] n d,
          where lim = 4300 and io = Written and now = 1004] p)
qed

text \<open>
  C4. After a warning is added the automatic action is meant to be triggered whenever
  the threshold is positive, the user's number of warnings has reached it and the action
  is not \<open>none\<close>. With the threshold 3, the action \<open>kick\<close> and two warnings on
  record, a third warning whose confirmation the platform refuses (the bot may not send
  in the channel), or whose reason has 1025 characters, is saved as the user's third
  warning, and the command ends with the exception of the send: the threshold is never
  tested and no action is triggered.
\<close>

theorem warn_confirmation_raises:
  "snd (warn 4300 nobody Written refusing 1003 example_ctx offender (Some ''spam'')
          (world_with (kick_config [warning_at 1001, warning_at 1002]))) = Inl Forbidden
   \<and> map_sum id (\<lambda>d. count_warnings d ''7'')
         (snd (get_config
            (fst (warn 4300 nobody Written refusing 1003 example_ctx offender (Some ''spam'')
                    (world_with (kick_config [warning_at 1001, warning_at 1002])))) 42))
       = Inr 3
   \<and> snd (warn 4300 nobody Written delivering 1003 example_ctx offender
            (Some (replicate 1025 (CHR ''a'')))
            (world_with (kick_config [warning_at 1001, warning_at 1002]))) = Inl HTTPException
   \<and> auto_action_triggered (kick_config [warning_at 1001, warning_at 1002]) 3"
proof -
  let ?c = "kick_config [warning_at 1001, warning_at 1002]"
  have c: "check_moderation_permissions nobody example_ctx offender = None" by simp
  have g: "snd (get_config (world_with ?c) (guild_id example_ctx)) = Inr ?c" by simp
  have r: "Some ''spam'' \<noteq> None" "Some ''spam'' \<noteq> Some []" by simp_all
  have l: "Some (replicate 1025 (CHR ''a'')) \<noteq> None"
    "Some (replicate 1025 (CHR ''a'')) \<noteq> Some []" by simp_all
  have 1: "snd (warn 4300 nobody Written refusing 1003 example_ctx offender (Some ''spam'')
          (world_with ?c)) = Inl Forbidden"
    by (simp add: warn_recorded [OF r c g] Let_def)
  have 2: "map_sum id (\<lambda>d. count_warnings d ''7'')
         (snd (get_config
            (fst (warn 4300 nobody Written refusing 1003 example_ctx offender (Some ''spam'')
                    (world_with ?c))) 42)) = Inr 3"
    using warn_saved [OF r c g, where lim = 4300 and pf = refusing and now = 1003]
    by simp
  have 3: "snd (warn 4300 nobody Written delivering 1003 example_ctx offender
            (Some (replicate 1025 (CHR ''a''))) (world_with ?c)) = Inl HTTPException"
    by (simp add: warn_recorded [OF l c g] Let_def notify_def)
  have 4: "auto_action_triggered ?c 3"
    by (simp add: auto_action_triggered_def)
  show ?thesis
    by (intro conjI 1 2 3 4)
qed

text \<open>The settings of the default document.\<close>

lemma default_settings [simp]:
  "threshold_of default_config = 3"
  "action_of default_config = ''timeout''"
  "action_duration_str default_config = ''1h''"
  by (simp_all add: threshold_of_def action_of_def action_duration_str_def default_config_def)

lemma count_default [simp]: "count_warnings default_config u = 0"
  by (simp add: count_warnings_def default_config_def)

lemma timeout_action_default [simp]: "timeout_action lim default_config = Inr (TimeoutFor 3600)"
  by (simp add: timeout_action_def parse_duration_examples)

text \<open>
  Three warnings on a guild that has no file, each saved and none of their messages
  raising: the first two trigger nothing, the third triggers the automatic action, which
  is a timeout of 3600 seconds when the bot may moderate members and nothing otherwise.
\<close>

lemma default_three_warnings:
  assumes "files w (guild_id ctx) = NoFile"
    and "check_moderation_permissions is_owner ctx member = None"
    and "guild_me ctx = Some me"
    and "r1 \<noteq> []" and "r2 \<noteq> []" and "r3 \<noteq> []"
    and "notify p1 (Some r1) = None" and "notify p2 (Some r2) = None"
    and "notify p3 (Some r3) = None"
  shows "(let s1 = warn lim is_owner Written p1 t1 ctx member (Some r1) w;
              s2 = warn lim is_owner Written p2 t2 ctx member (Some r2) (fst s1);
              s3 = warn lim is_owner Written p3 t3 ctx member (Some r3) (fst s2);
              action = (if moderate_members (guild_permissions me)
                        then TimeoutFor 3600 else NoActionTaken)
          in snd s1 = Inr (Warned 1 None) \<and> snd s2 = Inr (Warned 2 None)
             \<and> snd s3 = Inr (Warned 3 (Some action)))"
proof -
  let ?u = "py_str (member_id member)"
  let ?e = "\<lambda>r t. \<lparr>moderator_id = Some (member_id (author ctx)), reason = Some r,
                    timestamp = Some t, warning_id = Some t\<rparr>"
  let ?c1 = "append_warning default_config ?u (?e r1 t1)"
  let ?c2 = "append_warning ?c1 ?u (?e r2 t2)"
  let ?s1 = "warn lim is_owner Written p1 t1 ctx member (Some r1) w"
  let ?s2 = "warn lim is_owner Written p2 t2 ctx member (Some r2) (fst ?s1)"
  let ?s3 = "warn lim is_owner Written p3 t3 ctx member (Some r3) (fst ?s2)"
  have g0: "snd (get_config w (guild_id ctx)) = Inr default_config"
    using assms(1) by (simp add: get_config_def get_guild_lock_def Let_def)
  have r: "Some r1 \<noteq> None" "Some r1 \<noteq> Some []" "Some r2 \<noteq> None" "Some r2 \<noteq> Some []"
    "Some r3 \<noteq> None" "Some r3 \<noteq> Some []"
    using assms(4-6) by simp_all
  note c = assms(2)
  have g1: "snd (get_config (fst ?s1) (guild_id ctx)) = Inr ?c1"
    by (rule warn_saved [OF r(1,2) c g0])
  have g2: "snd (get_config (fst ?s2) (guild_id ctx)) = Inr ?c2"
    by (rule warn_saved [OF r(3,4) c g1])
  have p: "perform_auto_action lim (guild_me ctx) default_config =
             Inr (if moderate_members (guild_permissions me)
                  then TimeoutFor 3600 else NoActionTaken)"
    by (simp add: perform_auto_action_def assms(3))
  have 1: "snd ?s1 = Inr (Warned 1 None)"
    by (simp add: warn_recorded [OF r(1,2) c g0] Let_def auto_action_triggered_def assms(7))
  have 2: "snd ?s2 = Inr (Warned 2 None)"
    by (simp add: warn_recorded [OF r(3,4) c g1] Let_def auto_action_triggered_def assms(8))
  have 3: "snd ?s3 = Inr (Warned 3 (Some (if moderate_members (guild_permissions me)
                  then TimeoutFor 3600 else NoActionTaken)))"
    by (simp add: warn_recorded [OF r(5,6) c g2] Let_def auto_action_triggered_def p
          assms(9))
  show ?thesis
    unfolding Let_def using 1 2 3 by blast
qed

lemma check_weak_bot [simp]:
  "check_moderation_permissions nobody weak_bot_ctx offender = None"
  by (simp add: check_moderation_permissions_def weak_bot_ctx_def offender_def moderator_def
        bot_member_def nobody_def same_member_def author_is_not_owner_def)

text \<open>
  C10, as stated: on a guild that was never configured, three warnings against a user
  trigger an automatic timeout of one hour. Where the bot may not moderate members the
  third warning asks nothing of the platform, though every warning was saved and every
  message delivered.
\<close>

theorem default_config_no_permission_counterexample:
  "(let s1 = warn 4300 nobody Written delivering 1001 weak_bot_ctx offender (Some ''spam'')
               empty_world;
        s2 = warn 4300 nobody Written delivering 1002 weak_bot_ctx offender (Some ''flood'')
               (fst s1);
        s3 = warn 4300 nobody Written delivering 1003 weak_bot_ctx offender (Some ''spam'')
               (fst s2)
    in snd s3 = Inr (Warned 3 (Some NoActionTaken))
       \<and> snd s3 \<noteq> Inr (Warned 3 (Some (TimeoutFor 3600))))"
proof -
  have f: "files empty_world (guild_id weak_bot_ctx) = NoFile"
    by (simp add: empty_world_def)
  have c: "check_moderation_permissions nobody weak_bot_ctx offender = None" by simp
  have m: "guild_me weak_bot_ctx = Some (bot_member\<lparr>guild_permissions :=
       \<lparr>moderate_members = False, kick_members = True, ban_members = True\<rparr>\<rparr>)"
    by (simp add: weak_bot_ctx_def)
  have r: "''spam'' \<noteq> []" "''flood'' \<noteq> []" by simp_all
  have d: "notify delivering (Some ''spam'') = None" "notify delivering (Some ''flood'') = None"
    by simp_all
  show ?thesis
    using default_three_warnings [OF f c m r(1) r(2) r(1) d(1) d(2) d(1),
        where lim = 4300 and ?t1.0 = 1001 and ?t2.0 = 1002 and ?t3.0 = 1003]
    by (simp add: Let_def)
qed

text \<open>
  C10, amended. A guild that has no file gets the default document: no channels and no
  role, the two default messages, no warnings, the threshold 3, the action
  \<open>timeout\<close> and the duration \<open>1h\<close>. So on such a guild, when every warning is
  saved and none of the messages of \<open>warn\<close> raises, the first and the second warning
  of a user trigger nothing and the third triggers the automatic action, which is a
  timeout of 3600 seconds when the bot may moderate members; without that permission
  nothing is asked of the platform.
\<close>

theorem default_config_auto_moderation:
  assumes "files w (guild_id ctx) = NoFile"
    and "check_moderation_permissions is_owner ctx member = None"
    and "guild_me ctx = Some me"
    and "r1 \<noteq> []" and "r2 \<noteq> []" and "r3 \<noteq> []"
    and "notify p1 (Some r1) = None" and "notify p2 (Some r2) = None"
    and "notify p3 (Some r3) = None"
  shows "snd (get_config w (guild_id ctx)) = Inr default_config
         \<and> log_channel default_config = None \<and> welcome_channel default_config = None
         \<and> leave_channel default_config = None \<and> verified_role default_config = None
         \<and> mod_log_channel default_config = None
         \<and> welcome_message default_config = ''Welcome {user.mention} to {server.name}!''
         \<and> leave_message default_config = ''{user.name} has left {server.name}.''
         \<and> warnings default_config = Some (WarningsDict Map.empty)
         \<and> warn_threshold default_config = Some 3
         \<and> warn_action default_config = Some ''timeout''
         \<and> warn_timeout_duration default_config = Some ''1h''
         \<and> (let s1 = warn lim is_owner Written p1 t1 ctx member (Some r1) w;
                 s2 = warn lim is_owner Written p2 t2 ctx member (Some r2) (fst s1);
                 s3 = warn lim is_owner Written p3 t3 ctx member (Some r3) (fst s2);
                 action = (if moderate_members (guild_permissions me)
                           then TimeoutFor 3600 else NoActionTaken)
             in snd s1 = Inr (Warned 1 None) \<and> snd s2 = Inr (Warned 2 None)
                \<and> snd s3 = Inr (Warned 3 (Some action)))"
proof -
  have g0: "snd (get_config w (guild_id ctx)) = Inr default_config"
    using assms(1) by (simp add: get_config_def get_guild_lock_def Let_def)
  have d: "log_channel default_config = None \<and> welcome_channel default_config = None
         \<and> leave_channel default_config = None \<and> verified_role default_config = None
         \<and> mod_log_channel default_config = None
         \<and> welcome_message default_config = ''Welcome {user.mention} to {server.name}!''
         \<and> leave_message default_config = ''{user.name} has left {server.name}.''
         \<and> warnings default_config = Some (WarningsDict Map.empty)
         \<and> warn_threshold default_config = Some 3
         \<and> warn_action default_config = Some ''timeout''
         \<and> warn_timeout_duration default_config = Some ''1h''"
    by (simp add: default_config_def)
  show ?thesis
    using g0 d default_three_warnings [OF assms] by blast
qed

theorem default_config_auto_moderation_witness:
  "(let s1 = warn 4300 nobody Written delivering 1001 example_ctx offender (Some ''spam'')
               empty_world;
        s2 = warn 4300 nobody Written delivering 1002 example_ctx offender (Some ''flood'')
               (fst s1);
        s3 = warn 4300 nobody Written delivering 1003 example_ctx offender (Some ''spam'')
               (fst s2)
    in snd s1 = Inr (Warned 1 None) \<and> snd s2 = Inr (Warned 2 None)
       \<and> snd s3 = Inr (Warned 3 (Some (TimeoutFor 3600))))"
proof -
  have f: "files empty_world (guild_id example_ctx) = NoFile"
    by (simp add: empty_world_def)
  have c: "check_moderation_permissions nobody example_ctx offender = None" by simp
  have m: "guild_me example_ctx = Some bot_member" by (simp add: example_ctx_def)
  have r: "''spam'' \<noteq> []" "''flood'' \<noteq> []" by simp_all
  have d: "notify delivering (Some ''spam'') = None" "notify delivering (Some ''flood'') = None"
    by simp_all
  have b: "moderate_members (guild_permissions bot_member)" by (simp add: bot_member_def)
  show ?thesis
    using default_config_auto_moderation [OF f c m r(1) r(2) r(1) d(1) d(2) d(1),
        where lim = 4300 and ?t1.0 = 1001 and ?t2.0 = 1002 and ?t3.0 = 1003] b
    by (simp add: Let_def)
qed

section \<open>Properties of clearing warnings\<close>

text \<open>
  The number of warnings that clearing by identifier removes is the number of warnings
  with that identifier; it is at most one when the identifiers are distinct.
\<close>

lemma removed_count:
  "length ws - length (filter (\<lambda>w. warning_key w \<noteq> n) ws)
     = length (filter (\<lambda>w. warning_key w = n) ws)"
  using sum_length_filter_compl [of "\<lambda>w. warning_key w = n" ws] by simp

lemma some_removed_iff:
  "(length (filter (\<lambda>w. warning_key w \<noteq> n) ws) < length ws)
     = (filter (\<lambda>w. warning_key w = n) ws \<noteq> [])"
  using removed_count [of ws n] by (metis length_greater_0_conv zero_less_diff)

lemma distinct_count_le_1:
  "distinct (map f ws) \<Longrightarrow> length (filter (\<lambda>w. f w = n) ws) \<le> 1"
proof (induction ws)
  case Nil
  then show ?case by simp
next
  case (Cons a ws)
  have "f a \<notin> f ` set ws"
    using Cons.prems by simp
  then have "\<forall>x\<in>set ws. f x \<noteq> f a"
    by (metis imageI)
  then have "filter (\<lambda>w. f w = f a) ws = []"
    by (simp add: filter_empty_conv)
  then show ?case using Cons by auto
qed

text \<open>
  What \<open>clearwarns\<close> does once the document is read and the user has warnings: by
  identifier, and for \<open>all\<close>.
\<close>

lemma clearwarns_by_id:
  assumes "snd (get_config w (guild_id ctx)) = Inr config"
    and "warnings config = Some (WarningsDict m)"
    and "m (py_str (member_id member)) = Some (WarningList ws)"
    and "ws \<noteq> []"
    and "lower warning_ref \<noteq> ''all''"
    and "to_int warning_ref = Some n"
  shows "clearwarns to_int io ctx member warning_ref w =
    (let w1 = get_guild_lock w (guild_id ctx);
         u = py_str (member_id member);
         kept = filter (\<lambda>x. warning_key x \<noteq> n) ws;
         k = length (filter (\<lambda>x. warning_key x = n) ws);
         c = config\<lparr>warnings := Some (WarningsDict
               (if kept = [] then m(u := None) else m(u \<mapsto> WarningList kept)))\<rparr>
     in if k > 0
        then (save_config io w1 (guild_id ctx) c,
              Inr \<lparr>reply = ClearedId n, cleared_count = k, config_after = c\<rparr>)
        else (w1, Inr \<lparr>reply = NotFound n, cleared_count = 0, config_after = config\<rparr>))"
proof -
  have g: "get_config w (guild_id ctx) = (get_guild_lock w (guild_id ctx), Inr config)"
    using assms(1) by (simp add: get_config_def Let_def)
  show ?thesis
    using assms(2-6)
    by (simp add: clearwarns_def g Let_def removed_count some_removed_iff
          delete_user_def store_user_def)
qed

lemma clearwarns_all:
  assumes "snd (get_config w (guild_id ctx)) = Inr config"
    and "warnings config = Some (WarningsDict m)"
    and "m (py_str (member_id member)) = Some (WarningList ws)"
    and "ws \<noteq> []"
    and "lower warning_ref = ''all''"
  shows "clearwarns to_int io ctx member warning_ref w =
    (let w1 = get_guild_lock w (guild_id ctx);
         c = config\<lparr>warnings := Some (WarningsDict (m(py_str (member_id member) := None)))\<rparr>
     in (save_config io w1 (guild_id ctx) c,
         Inr \<lparr>reply = ClearedAll (length ws), cleared_count = length ws, config_after = c\<rparr>))"
proof -
  have g: "get_config w (guild_id ctx) = (get_guild_lock w (guild_id ctx), Inr config)"
    using assms(1) by (simp add: get_config_def Let_def)
  show ?thesis
    using assms(2-5)
    by (simp add: clearwarns_def g Let_def delete_user_def)
qed

text \<open>Every result of \<open>clearwarns\<close> is a stop with nothing changed, or a clear.\<close>

lemma clearwarns_result_cases:
  assumes "snd (get_config w (guild_id ctx)) = Inr config"
    and "snd (clearwarns to_int io ctx member warning_ref w) = Inr r"
  shows "(cleared_count r = 0 \<and> config_after r = config
            \<and> fst (clearwarns to_int io ctx member warning_ref w)
                = get_guild_lock w (guild_id ctx))
         \<or> (\<exists>m kept. warnings config = Some (WarningsDict m)
               \<and> cleared_count r > 0
               \<and> config_after r = config\<lparr>warnings := Some (WarningsDict
                    (if kept = [] then m(py_str (member_id member) := None)
                     else m(py_str (member_id member) \<mapsto> WarningList kept)))\<rparr>
               \<and> fst (clearwarns to_int io ctx member warning_ref w)
                   = save_config io (get_guild_lock w (guild_id ctx)) (guild_id ctx)
                       (config_after r))"
    (is "?stop \<or> ?cleared")
proof -
  let ?u = "py_str (member_id member)"
  have g: "get_config w (guild_id ctx) = (get_guild_lock w (guild_id ctx), Inr config)"
    using assms(1) by (simp add: get_config_def Let_def)
  show ?thesis
  proof (cases "warnings config")
    case None
    then have ?stop using assms(2) by (auto simp: clearwarns_def g Let_def)
    then show ?thesis ..
  next
    case (Some d)
    show ?thesis
    proof (cases d)
      case NotADict
      then have ?stop using assms(2) Some by (auto simp: clearwarns_def g Let_def)
      then show ?thesis ..
    next
      case (WarningsDict m)
      note wd = Some [unfolded WarningsDict]
      show ?thesis
      proof (cases "m ?u")
        case None
        then have ?stop using assms(2) wd by (auto simp: clearwarns_def g Let_def)
        then show ?thesis ..
      next
        case (Some e)
        show ?thesis
        proof (cases e)
          case NotAList
          then have ?stop using assms(2) wd Some by (auto simp: clearwarns_def g Let_def)
          then show ?thesis ..
        next
          case (WarningList ws)
          note mu = Some [unfolded WarningList]
          show ?thesis
          proof (cases "ws = []")
            case True
            then have ?stop using assms(2) wd mu by (auto simp: clearwarns_def g Let_def)
            then show ?thesis ..
          next
            case ne: False
            show ?thesis
            proof (cases "lower warning_ref = ''all''")
              case True
              note cw = clearwarns_all [where to_int = to_int and io = io,
                  OF assms(1) wd mu ne True]
              have "cleared_count r > 0
                 \<and> config_after r = config\<lparr>warnings := Some (WarningsDict
                      (if ([]::warning_entry list) = [] then m(?u := None)
                       else m(?u \<mapsto> WarningList [])))\<rparr>
                 \<and> fst (clearwarns to_int io ctx member warning_ref w)
                     = save_config io (get_guild_lock w (guild_id ctx)) (guild_id ctx)
                         (config_after r)"
                using assms(2) ne by (auto simp: cw Let_def)
              then have ?cleared using wd by blast
              then show ?thesis ..
            next
              case na: False
              show ?thesis
              proof (cases "to_int warning_ref")
                case None
                then have ?stop
                  using assms(2) wd mu ne na by (auto simp: clearwarns_def g Let_def)
                then show ?thesis ..
              next
                case (Some n)
                note cw = clearwarns_by_id [where to_int = to_int and io = io
                    and warning_ref = warning_ref, OF assms(1) wd mu ne na Some]
                let ?kept = "filter (\<lambda>x. warning_key x \<noteq> n) ws"
                show ?thesis
                proof (cases "length (filter (\<lambda>x. warning_key x = n) ws) > 0")
                  case True
                  have "cleared_count r > 0
                     \<and> config_after r = config\<lparr>warnings := Some (WarningsDict
                          (if ?kept = [] then m(?u := None)
                           else m(?u \<mapsto> WarningList ?kept)))\<rparr>
                     \<and> fst (clearwarns to_int io ctx member warning_ref w)
                         = save_config io (get_guild_lock w (guild_id ctx)) (guild_id ctx)
                             (config_after r)"
                    using assms(2) True by (auto simp: cw Let_def)
                  then have ?cleared using wd by blast
                  then show ?thesis ..
                next
                  case False
                  then have ?stop using assms(2) by (auto simp: cw Let_def)
                  then show ?thesis ..
                qed
              qed
            qed
          qed
        qed
      qed
    qed
  qed
qed

text \<open>Facts about the example inputs.\<close>

lemma example_int_values [simp]:
  "example_int ''100'' = Some 100" "example_int ''200'' = Some 200"
  by (simp_all add: example_int_def is_digit_def decimal_def digit_val_def)

lemma lower_examples [simp]:
  "lower ''100'' = ''100''" "lower ''200'' = ''200''" "lower ''ALL'' = ''all''"
  by (simp_all add: lower_def lower_char_def) code_simp

lemma warning_key_at [simp]: "warning_key (warning_at i) = i"
  by (simp add: warning_key_def warning_at_def)

lemma warnings_config_with [simp]:
  "warnings (config_with ws) = Some (WarningsDict [''7'' \<mapsto> WarningList ws])"
  by (simp add: config_with_def)

text \<open>
  What clearing by identifier does for a user who has warnings: it removes every
  warning whose identifier (the \<open>id\<close>, or the timestamp of a warning without one) is
  the given one and keeps the others in their order. The number removed is the number of
  such warnings, at most one when the user's identifiers are pairwise distinct.
\<close>

lemma clearwarns_by_id_removes_matching:
  assumes "snd (get_config w (guild_id ctx)) = Inr config"
    and "warnings config = Some (WarningsDict m)"
    and "m (py_str (member_id member)) = Some (WarningList ws)"
    and "ws \<noteq> []"
    and "lower warning_ref \<noteq> ''all''"
    and "to_int warning_ref = Some n"
  shows "\<exists>r. snd (clearwarns to_int io ctx member warning_ref w) = Inr r
           \<and> cleared_count r = length (filter (\<lambda>x. warning_key x = n) ws)
           \<and> stored_warnings (config_after r) (py_str (member_id member))
               = filter (\<lambda>x. warning_key x \<noteq> n) ws
           \<and> (distinct (map warning_key ws) \<longrightarrow> cleared_count r \<le> 1)"
proof -
  let ?k = "length (filter (\<lambda>x. warning_key x = n) ws)"
  have same: "filter (\<lambda>x. warning_key x \<noteq> n) ws = ws" if "?k = 0"
    using that by (simp add: filter_empty_conv filter_id_conv)
  have d: "distinct (map warning_key ws) \<longrightarrow> ?k \<le> 1"
    using distinct_count_le_1 [of warning_key ws n] by simp
  note cw = clearwarns_by_id [where to_int = to_int and warning_ref = warning_ref, OF assms]
  show ?thesis
  proof (cases "?k > 0")
    case True
    then show ?thesis
      using d assms(2,3)
      by (simp add: cw Let_def stored_warnings_def)
  next
    case False
    then show ?thesis
      using d assms(2,3) same
      by (simp add: cw Let_def stored_warnings_def)
  qed
qed

text \<open>
  C2. Clearing by identifier is meant to delete one warning, the one with the given
  identifier, so that the number removed is 0 or 1 also when several warnings carry the
  identifier. Two warnings issued to a user in the same second (here at the time 100)
  get the same identifier; clearing by it removes both, the count is 2, and the answer
  still names one warning with that identifier.
\<close>

theorem clearwarns_duplicate_ids:
  "(let s1 = warn 4300 nobody Written delivering 100 example_ctx offender (Some ''spam'')
               empty_world;
        s2 = warn 4300 nobody Written delivering 100 example_ctx offender (Some ''flood'')
               (fst s1);
        s3 = clearwarns example_int Written example_ctx offender ''100'' (fst s2)
    in snd s1 = Inr (Warned 1 None) \<and> snd s2 = Inr (Warned 2 None)
       \<and> map_sum id reply (snd s3) = Inr (ClearedId 100)
       \<and> map_sum id cleared_count (snd s3) = Inr 2
       \<and> map_sum id (\<lambda>r. stored_warnings (config_after r) ''7'') (snd s3) = Inr [])"
proof -
  let ?e1 = "\<lparr>moderator_id = Some (member_id (author example_ctx)), reason = Some ''spam'',
              timestamp = Some 100, warning_id = Some 100\<rparr>"
  let ?e2 = "\<lparr>moderator_id = Some (member_id (author example_ctx)), reason = Some ''flood'',
              timestamp = Some 100, warning_id = Some 100\<rparr>"
  let ?c1 = "append_warning default_config (py_str (member_id offender)) ?e1"
  let ?c2 = "append_warning ?c1 (py_str (member_id offender)) ?e2"
  let ?s1 = "warn 4300 nobody Written delivering 100 example_ctx offender (Some ''spam'')
               empty_world"
  let ?s2 = "warn 4300 nobody Written delivering 100 example_ctx offender (Some ''flood'')
               (fst ?s1)"
  let ?s3 = "clearwarns example_int Written example_ctx offender ''100'' (fst ?s2)"
  have c: "check_moderation_permissions nobody example_ctx offender = None" by simp
  have r: "Some ''spam'' \<noteq> None" "Some ''spam'' \<noteq> Some []"
    "Some ''flood'' \<noteq> None" "Some ''flood'' \<noteq> Some []" by simp_all
  have g0: "snd (get_config empty_world (guild_id example_ctx)) = Inr default_config"
    by (simp add: get_config_def get_guild_lock_def empty_world_def Let_def)
  have g1: "snd (get_config (fst ?s1) (guild_id example_ctx)) = Inr ?c1"
    by (rule warn_saved [OF r(1,2) c g0])
  have g2: "snd (get_config (fst ?s2) (guild_id example_ctx)) = Inr ?c2"
    by (rule warn_saved [OF r(3,4) c g1])
  have 1: "snd ?s1 = Inr (Warned 1 None)"
    by (simp add: warn_recorded [OF r(1,2) c g0] Let_def auto_action_triggered_def)
  have 2: "snd ?s2 = Inr (Warned 2 None)"
    by (simp add: warn_recorded [OF r(3,4) c g1] Let_def auto_action_triggered_def)
  have a: "warnings ?c2 = Some (WarningsDict [''7'' \<mapsto> WarningList [?e1, ?e2]])"
    by (simp add: append_warning_def default_config_def Let_def)
  have b: "[''7'' \<mapsto> WarningList [?e1, ?e2]] (py_str (member_id offender))
             = Some (WarningList [?e1, ?e2])"
    by simp
  have d: "[?e1, ?e2] \<noteq> []" "lower ''100'' \<noteq> ''all''" "example_int ''100'' = Some 100"
    by simp_all
  note cw = clearwarns_by_id
      [where to_int = example_int and warning_ref = "''100''" and io = Written,
       OF g2 a b d]
  have 3: "map_sum id reply (snd ?s3) = Inr (ClearedId 100)"
    "map_sum id cleared_count (snd ?s3) = Inr 2"
    "map_sum id (\<lambda>r. stored_warnings (config_after r) ''7'') (snd ?s3) = Inr []"
    by (simp_all add: cw Let_def warning_key_def stored_warnings_def)
  show ?thesis
    unfolding Let_def by (intro conjI 1 2 3)
qed

text \<open>
  C7. After \<open>clearwarns\<close> has cleared something, by identifier or with \<open>all\<close>, the
  user's key does not hold an empty list: when no warning is left the key is absent. A
  document in which no key holds an empty list stays so, and the document that is saved
  is the one the command ends with.
\<close>

theorem clearwarns_no_empty_entry:
  assumes "snd (get_config w (guild_id ctx)) = Inr config"
    and "snd (clearwarns to_int io ctx member warning_ref w) = Inr r"
  shows "(cleared_count r > 0 \<longrightarrow>
            lookup_user (config_after r) (py_str (member_id member)) \<noteq> Some (WarningList [])
            \<and> (stored_warnings (config_after r) (py_str (member_id member)) = [] \<longrightarrow>
                 lookup_user (config_after r) (py_str (member_id member)) = None)
            \<and> save_log (fst (clearwarns to_int io ctx member warning_ref w))
                = save_log w @ [(guild_id ctx, config_after r)])
         \<and> (no_empty_entries config \<longrightarrow> no_empty_entries (config_after r))"
proof -
  let ?u = "py_str (member_id member)"
  from clearwarns_result_cases [OF assms]
  show ?thesis
  proof (elim disjE exE conjE)
    assume "cleared_count r = 0" and "config_after r = config"
    then show ?thesis by simp
  next
    fix m kept
    assume wd: "warnings config = Some (WarningsDict m)"
      and pos: "cleared_count r > 0"
      and ca: "config_after r = config\<lparr>warnings := Some (WarningsDict
                    (if kept = [] then m(?u := None) else m(?u \<mapsto> WarningList kept)))\<rparr>"
      and fs: "fst (clearwarns to_int io ctx member warning_ref w)
                   = save_config io (get_guild_lock w (guild_id ctx)) (guild_id ctx)
                       (config_after r)"
    have 1: "lookup_user (config_after r) ?u \<noteq> Some (WarningList [])"
      by (simp add: ca lookup_user_def)
    have 2: "stored_warnings (config_after r) ?u = [] \<longrightarrow>
                 lookup_user (config_after r) ?u = None"
      by (simp add: ca lookup_user_def stored_warnings_def)
    have 3: "save_log (fst (clearwarns to_int io ctx member warning_ref w))
                = save_log w @ [(guild_id ctx, config_after r)]"
      unfolding fs by (simp add: save_config_def get_guild_lock_def Let_def)
    have 4: "no_empty_entries (config_after r)" if n: "no_empty_entries config"
    proof -
      have "m v \<noteq> Some (WarningList [])" for v
        using n wd by (simp add: no_empty_entries_def lookup_user_def)
      then show ?thesis
        by (simp add: ca no_empty_entries_def lookup_user_def)
    qed
    show ?thesis using 1 2 3 4 by blast
  qed
qed

theorem clearwarns_no_empty_entry_witness:
  "(\<exists>r. snd (clearwarns example_int Written example_ctx offender ''100''
               (world_with (config_with [warning_at 100]))) = Inr r
        \<and> cleared_count r = 1
        \<and> lookup_user (config_after r) ''7'' = None)
   \<and> no_empty_entries (config_with [warning_at 100])"
proof -
  let ?c1 = "config_with [warning_at 100]"
  have g: "snd (get_config (world_with ?c1) (guild_id example_ctx)) = Inr ?c1"
    by simp
  have a: "warnings ?c1 = Some (WarningsDict [''7'' \<mapsto> WarningList [warning_at 100]])"
    by simp
  have b: "[''7'' \<mapsto> WarningList [warning_at 100]] (py_str (member_id offender))
             = Some (WarningList [warning_at 100])"
    by simp
  have c: "[warning_at 100] \<noteq> []" "lower ''100'' \<noteq> ''all''"
    "example_int ''100'' = Some 100"
    by simp_all
  note cw = clearwarns_by_id
      [where to_int = example_int and warning_ref = "''100''" and io = Written,
       OF g a b c]
  obtain r1 where r1: "snd (clearwarns example_int Written example_ctx offender ''100''
      (world_with ?c1)) = Inr r1" and k: "cleared_count r1 = 1"
      and s: "stored_warnings (config_after r1) ''7'' = []"
    by (simp add: cw Let_def stored_warnings_def)
  have n: "no_empty_entries ?c1"
    by (simp add: no_empty_entries_def lookup_user_def)
  have l1: "lookup_user (config_after r1) ''7'' = None"
    using clearwarns_no_empty_entry [OF g r1] k s by simp
  show ?thesis
    using r1 k l1 n by blast
qed




end
